theory Spec2Isabelle
  imports Complex_Main
begin

section \<open>Tensors, exceptions and log records\<close>

text \<open>
  A tensor is its shape and its elements in row-major order. \<open>is_meta\<close> tells a MONAI
  \<open>MetaTensor\<close> from a plain \<open>torch.Tensor\<close>. Voxel values are rationals. Sizes are natural
  numbers: torch has no negative dimension.
\<close>

record tensor =
  is_meta :: bool
  shape :: "nat list"
  elems :: "rat list"

text \<open>
  Exceptions are values. \<open>Raised n\<close> is an exception of class \<open>n\<close> (a subclass of Python's
  \<open>Exception\<close>) raised by library code; the others are raised by the operations the
  source itself writes.
\<close>

datatype exn =
    IndexError | ZeroDivisionError | ValueError | RuntimeError | AttributeError | TypeError
  | Raised string

text \<open>
  What the dictionary holds under the key \<open>image\<close>: the path string before the loader
  has run, an image after it.
\<close>

datatype item = PathStr string | Img tensor

datatype log_record =
    Warning_channel_dim "nat list"
  | Error_shape_mismatch "nat list" "nat list"
  | Error_processing exn

datatype log_level = WARNING | ERROR

fun level :: "log_record \<Rightarrow> log_level" where
  "level (Warning_channel_dim s) = WARNING"
| "level (Error_shape_mismatch s t) = ERROR"
| "level (Error_processing e) = ERROR"

definition ndim :: "tensor \<Rightarrow> nat" where
  "ndim t = length (shape t)"

definition as_tensor :: "tensor \<Rightarrow> tensor" where
  "as_tensor t = t\<lparr>is_meta := False\<rparr>"

definition unsqueeze0 :: "tensor \<Rightarrow> tensor" where
  \<comment> \<open>\<open>t.unsqueeze(0)\<close>\<close>
  "unsqueeze0 t = t\<lparr>shape := 1 # shape t\<rparr>"

definition shape_at0 :: "tensor \<Rightarrow> exn + nat" where
  \<comment> \<open>\<open>t.shape[0]\<close>: IndexError on a 0-dimensional tensor\<close>
  "shape_at0 t = (case shape t of [] \<Rightarrow> Inl IndexError | c # _ \<Rightarrow> Inr c)"

definition select0 :: "tensor \<Rightarrow> exn + tensor" where
  \<comment> \<open>\<open>t[0, ...]\<close>: the first slice along dimension 0\<close>
  "select0 t =
     (case shape t of
        [] \<Rightarrow> Inl IndexError
      | c # rest \<Rightarrow>
          if c = 0 then Inl IndexError
          else Inr (t\<lparr>shape := rest, elems := take (prod_list rest) (elems t)\<rparr>))"

definition zeros :: "nat list \<Rightarrow> tensor" where
  \<comment> \<open>\<open>torch.zeros(shape, dtype=torch.float32)\<close>\<close>
  "zeros s = \<lparr>is_meta = False, shape = s, elems = replicate (prod_list s) 0\<rparr>"

section \<open>\<open>preprocess_ct_volume_monai\<close> (data/preprocessing.py)\<close>

text \<open>
  The pipeline is any \<open>Compose\<close>: called on the path it changes the world \<open>'w\<close> (files
  read and written) and either raises or returns what it left under \<open>image\<close>. A string
  there has no attribute \<open>ndim\<close>: line 121 raises AttributeError.
\<close>

type_synonym 'w pipeline = "string \<Rightarrow> 'w \<Rightarrow> (exn + item) \<times> 'w"

text \<open>Lines 118 to 126: drop the metadata, then bring the channel dimension to one.\<close>

definition fix_channel :: "tensor \<Rightarrow> (exn + tensor) \<times> log_record list" where
  "fix_channel p =
     (let t = (if is_meta p then as_tensor p else p) in
      if ndim t = 3 then (Inr (unsqueeze0 t), [])
      else if ndim t = 4 \<and> hd (shape t) \<noteq> 1 then
        (if hd (shape t) > 1
         then (case select0 t of
                 Inl e \<Rightarrow> (Inl e, [Warning_channel_dim (shape t)])
               | Inr s \<Rightarrow> (Inr (unsqueeze0 s), [Warning_channel_dim (shape t)]))
         else (Inr t, [Warning_channel_dim (shape t)]))
      else (Inr t, []))"

text \<open>
  Lines 128 to 133. The \<open>or\<close> of line 128 reads \<open>shape[0]\<close> only when \<open>shape[1:]\<close> equals
  the target, and that read raises on a 0-dimensional tensor.
\<close>

definition check_shape :: "nat list \<Rightarrow> tensor \<Rightarrow> (exn + tensor) \<times> log_record list" where
  "check_shape target_shape_dhw t =
     (if tl (shape t) \<noteq> target_shape_dhw
      then (Inr (zeros (1 # target_shape_dhw)),
            [Error_shape_mismatch (shape t) target_shape_dhw])
      else (case shape_at0 t of
              Inl e \<Rightarrow> (Inl e, [])
            | Inr c \<Rightarrow>
                if c \<noteq> 1
                then (Inr (zeros (1 # target_shape_dhw)),
                      [Error_shape_mismatch (shape t) target_shape_dhw])
                else (Inr t, [])))"

text \<open>The body of the \<open>try\<close>, lines 115 to 133.\<close>

definition try_body ::
  "string \<Rightarrow> 'w pipeline \<Rightarrow> nat list \<Rightarrow> 'w \<Rightarrow> (exn + tensor) \<times> log_record list \<times> 'w" where
  "try_body nii_path preprocessing_pipeline target_shape_dhw w =
     (case preprocessing_pipeline nii_path w of
        (Inl e, w') \<Rightarrow> (Inl e, [], w')
      | (Inr (PathStr s), w') \<Rightarrow> (Inl AttributeError, [], w')
      | (Inr (Img p), w') \<Rightarrow>
          (case fix_channel p of
             (Inl e, lg) \<Rightarrow> (Inl e, lg, w')
           | (Inr t, lg) \<Rightarrow>
               (case check_shape target_shape_dhw t of
                  (r, lg') \<Rightarrow> (r, lg @ lg', w'))))"

text \<open>
  The whole function: \<open>except Exception\<close> turns every exception of the body into a
  logged error and the zero tensor. The result type still has room for an exception, so
  that "never raises" is a statement to prove.
\<close>

definition preprocess_ct_volume_monai ::
  "string \<Rightarrow> 'w pipeline \<Rightarrow> nat list \<Rightarrow> 'w \<Rightarrow> (exn + tensor) \<times> log_record list \<times> 'w" where
  "preprocess_ct_volume_monai nii_path preprocessing_pipeline target_shape_dhw w =
     (case try_body nii_path preprocessing_pipeline target_shape_dhw w of
        (Inl e, lg, w') \<Rightarrow> (Inr (zeros (1 # target_shape_dhw)), lg @ [Error_processing e], w')
      | (Inr t, lg, w') \<Rightarrow> (Inr t, lg, w'))"

section \<open>\<open>create_monai_preprocessing_pipeline\<close> (data/preprocessing.py)\<close>

text \<open>
  The transforms of the chain with the arguments the source gives them (\<open>keys\<close> is
  \<open>image\<close> throughout).
\<close>

datatype transform =
    LoadImaged bool bool string
      \<comment> \<open>\<open>image_only\<close>, \<open>ensure_channel_first\<close>, \<open>reader\<close>\<close>
  | EnsureChannelFirstd string
      \<comment> \<open>\<open>channel_dim\<close>\<close>
  | Orientationd string
      \<comment> \<open>\<open>axcodes\<close>\<close>
  | Spacingd "rat list" string bool
      \<comment> \<open>\<open>pixdim\<close>, \<open>mode\<close>, \<open>align_corners\<close>\<close>
  | ScaleIntensityRanged rat rat rat rat bool
      \<comment> \<open>\<open>a_min\<close>, \<open>a_max\<close>, \<open>b_min\<close>, \<open>b_max\<close>, \<open>clip\<close>\<close>
  | Resized "nat list" string
      \<comment> \<open>\<open>spatial_size\<close>, \<open>mode\<close>\<close>
  | EnsureTyped bool
      \<comment> \<open>\<open>track_meta\<close> (\<open>dtype\<close> is \<open>torch.float32\<close>)\<close>
  | SaveImaged string string bool bool bool
      \<comment> \<open>\<open>output_dir\<close>, \<open>output_postfix\<close>, \<open>resample\<close>, \<open>separate_folder\<close>, \<open>print_log\<close>\<close>

text \<open>
  Python's \<open>list.insert(i, x)\<close>: a negative index counts from the end, and an index
  beyond either end is brought back to it.
\<close>

definition py_insert :: "int \<Rightarrow> 'a \<Rightarrow> 'a list \<Rightarrow> 'a list" where
  "py_insert i x xs =
     (let n = int (length xs);
          j = (if i < 0 then max 0 (n + i) else min i n)
      in take (nat j) xs @ x # drop (nat j) xs)"

text \<open>
  MONAI and the file system are not part of the repository. What the source calls is a
  parameter: the transforms whose arithmetic no claim is about, the image writer behind
  \<open>SaveImaged\<close>, and \<open>Path.mkdir\<close>.
\<close>

record 'w monai =
  load_image :: "bool \<Rightarrow> bool \<Rightarrow> string \<Rightarrow> item \<Rightarrow> 'w \<Rightarrow> (exn + item) \<times> 'w"
  ensure_channel_first :: "string \<Rightarrow> item \<Rightarrow> exn + item"
  orientation :: "string \<Rightarrow> item \<Rightarrow> exn + item"
  spacing :: "rat list \<Rightarrow> string \<Rightarrow> bool \<Rightarrow> item \<Rightarrow> exn + item"
  resize :: "nat list \<Rightarrow> string \<Rightarrow> item \<Rightarrow> exn + item"
  ensure_type :: "bool \<Rightarrow> item \<Rightarrow> exn + item"
  image_writer :: "string \<Rightarrow> string \<Rightarrow> item \<Rightarrow> 'w \<Rightarrow> (exn + unit) \<times> 'w"
  mkdir :: "string \<Rightarrow> 'w \<Rightarrow> (exn + unit) \<times> 'w"

definition scale_intensity_range :: "rat \<Rightarrow> rat \<Rightarrow> rat \<Rightarrow> rat \<Rightarrow> bool \<Rightarrow> rat \<Rightarrow> rat" where
  \<comment> \<open>Modelled from the spec: the body of MONAI's \<open>ScaleIntensityRanged\<close> is library code
      that the repository does not hold. The spec's step 5: clip the raw intensity to the
      configured range, then rescale the clipped range linearly to the output range.\<close>
  "scale_intensity_range a_min a_max b_min b_max clip x =
     (let y = (if clip then max a_min (min a_max x) else x)
      in (y - a_min) / (a_max - a_min) * (b_max - b_min) + b_min)"

definition scale_intensity_ranged ::
  "rat \<Rightarrow> rat \<Rightarrow> rat \<Rightarrow> rat \<Rightarrow> bool \<Rightarrow> item \<Rightarrow> exn + item" where
  \<comment> \<open>Modelled from the spec: the intensity step applied to every voxel of the image; a
      path string is not an array, and arithmetic on it raises.\<close>
  "scale_intensity_ranged a_min a_max b_min b_max clip x =
     (case x of
        PathStr s \<Rightarrow> Inl TypeError
      | Img t \<Rightarrow>
          Inr (Img (t\<lparr>elems := map (scale_intensity_range a_min a_max b_min b_max clip) (elems t)\<rparr>)))"

definition save_imaged ::
  "'w monai \<Rightarrow> string \<Rightarrow> string \<Rightarrow> item \<Rightarrow> 'w \<Rightarrow> (exn + item) \<times> 'w" where
  \<comment> \<open>Modelled from the spec: the body of MONAI's \<open>SaveImaged\<close> is library code that the
      repository does not hold. The spec's step 6.5: write the transformed volume to disk;
      this performs I/O as a side effect without altering the data passed downstream.\<close>
  "save_imaged lib output_dir output_postfix x w =
     (case image_writer lib output_dir output_postfix x w of
        (Inl e, w') \<Rightarrow> (Inl e, w')
      | (Inr u, w') \<Rightarrow> (Inr x, w'))"

fun apply_transform :: "'w monai \<Rightarrow> transform \<Rightarrow> item \<Rightarrow> 'w \<Rightarrow> (exn + item) \<times> 'w" where
  "apply_transform lib (LoadImaged io cf rd) x w = load_image lib io cf rd x w"
| "apply_transform lib (EnsureChannelFirstd cd) x w = (ensure_channel_first lib cd x, w)"
| "apply_transform lib (Orientationd ax) x w = (orientation lib ax x, w)"
| "apply_transform lib (Spacingd pixdim mode ac) x w = (spacing lib pixdim mode ac x, w)"
| "apply_transform lib (ScaleIntensityRanged a_min a_max b_min b_max clip) x w =
     (scale_intensity_ranged a_min a_max b_min b_max clip x, w)"
| "apply_transform lib (Resized spatial_size mode) x w = (resize lib spatial_size mode x, w)"
| "apply_transform lib (EnsureTyped tm) x w = (ensure_type lib tm x, w)"
| "apply_transform lib (SaveImaged output_dir output_postfix rs sf pl) x w =
     save_imaged lib output_dir output_postfix x w"

text \<open>\<open>Compose\<close>: the transforms in order; the first exception ends the chain.\<close>

fun run_compose :: "'w monai \<Rightarrow> transform list \<Rightarrow> item \<Rightarrow> 'w \<Rightarrow> (exn + item) \<times> 'w" where
  "run_compose lib [] x w = (Inr x, w)"
| "run_compose lib (t # ts) x w =
     (case apply_transform lib t x w of
        (Inl e, w') \<Rightarrow> (Inl e, w')
      | (Inr y, w') \<Rightarrow> run_compose lib ts y w')"

definition compose_call :: "'w monai \<Rightarrow> transform list \<Rightarrow> 'w pipeline" where
  \<comment> \<open>\<open>preprocessing_pipeline({"image": str(nii_path)})["image"]\<close>\<close>
  "compose_call lib ts nii_path w = run_compose lib ts (PathStr nii_path) w"

definition base_transforms :: "rat list \<Rightarrow> nat list \<Rightarrow> rat \<Rightarrow> rat \<Rightarrow> string \<Rightarrow> transform list" where
  \<comment> \<open>lines 50 to 77\<close>
  "base_transforms target_spacing_xyz target_shape_dhw clip_hu_min clip_hu_max orientation_axcodes =
     [LoadImaged True False ''NibabelReader'',
      EnsureChannelFirstd ''no_channel'',
      Orientationd orientation_axcodes,
      Spacingd target_spacing_xyz ''bilinear'' True,
      ScaleIntensityRanged clip_hu_min clip_hu_max 0 1 True,
      Resized target_shape_dhw ''area'',
      EnsureTyped False]"

definition create_monai_preprocessing_pipeline ::
  "'w monai \<Rightarrow> rat list \<Rightarrow> nat list \<Rightarrow> rat \<Rightarrow> rat \<Rightarrow> string \<Rightarrow> string option \<Rightarrow> 'w
     \<Rightarrow> (exn + transform list) \<times> 'w" where
  "create_monai_preprocessing_pipeline lib target_spacing_xyz target_shape_dhw clip_hu_min
       clip_hu_max orientation_axcodes save_transformed_path w =
     (let transforms = base_transforms target_spacing_xyz target_shape_dhw clip_hu_min
                         clip_hu_max orientation_axcodes
      in case save_transformed_path of
           None \<Rightarrow> (Inr transforms, w)
         | Some dir \<Rightarrow>
             (case mkdir lib dir w of
                (Inl e, w') \<Rightarrow> (Inl e, w')
              | (Inr u, w') \<Rightarrow>
                  (Inr (py_insert (- 1)
                          (SaveImaged dir ''_transformed'' False False True) transforms), w')))"

section \<open>Modules and their parameters (models/vit3d.py)\<close>

text \<open>
  A learned parameter is its shape and the scheme that last filled it. \<open>Library_default\<close>
  is what the constructor of a torch module leaves (its own \<open>reset_parameters\<close>).
\<close>

datatype init = Library_default | Trunc_normal rat | Constant rat

datatype param = Param (pshape: "nat list") (pinit: init)

datatype module =
    Linear param "param option"
      \<comment> \<open>\<open>weight\<close>, \<open>bias\<close> (\<open>None\<close> without a bias)\<close>
  | LayerNorm param param
      \<comment> \<open>\<open>weight\<close>, \<open>bias\<close>\<close>
  | Conv3d param param "nat \<times> nat \<times> nat"
      \<comment> \<open>\<open>weight\<close>, \<open>bias\<close>, \<open>stride\<close>\<close>
  | Dropout rat
  | ReLU
  | GELU

definition nn_Linear :: "nat \<Rightarrow> nat \<Rightarrow> bool \<Rightarrow> module" where
  "nn_Linear in_features out_features bias =
     Linear (Param [out_features, in_features] Library_default)
            (if bias then Some (Param [out_features] Library_default) else None)"

definition nn_LayerNorm :: "nat \<Rightarrow> module" where
  "nn_LayerNorm dm = LayerNorm (Param [dm] Library_default) (Param [dm] Library_default)"

definition nn_Conv3d :: "nat \<Rightarrow> nat \<Rightarrow> nat \<times> nat \<times> nat \<Rightarrow> nat \<times> nat \<times> nat \<Rightarrow> module" where
  "nn_Conv3d in_channels out_channels kernel_size stride =
     (case kernel_size of (kd, kh, kw) \<Rightarrow>
        Conv3d (Param [out_channels, in_channels, kd, kh, kw] Library_default)
               (Param [out_channels] Library_default) stride)"

definition nn_Dropout :: "rat \<Rightarrow> exn + module" where
  \<comment> \<open>the constructor refuses a probability outside [0, 1]\<close>
  "nn_Dropout p = (if p < 0 \<or> p > 1 then Inl ValueError else Inr (Dropout p))"

subsection \<open>\<open>PatchEmbed3D\<close>\<close>

record PatchEmbed3D =
  pe_volume_size :: "nat \<times> nat \<times> nat"
  pe_patch_size :: "nat \<times> nat \<times> nat"
  n_patches :: nat
  proj :: module

text \<open>
  Lines 21 to 28. \<open>//\<close> is floor division and raises on a zero divisor; nothing here
  compares a remainder with zero.
\<close>

definition PatchEmbed3D_init ::
  "nat \<times> nat \<times> nat \<Rightarrow> nat \<times> nat \<times> nat \<Rightarrow> nat \<Rightarrow> nat \<Rightarrow> exn + PatchEmbed3D" where
  "PatchEmbed3D_init volume_size patch_size in_channels embed_dim =
     (case volume_size of (vd, vh, vw) \<Rightarrow>
      case patch_size of (pd, ph, pw) \<Rightarrow>
        if pd = 0 \<or> ph = 0 \<or> pw = 0 then Inl ZeroDivisionError
        else Inr \<lparr>pe_volume_size = volume_size,
                  pe_patch_size = patch_size,
                  n_patches = (vd div pd) * (vh div ph) * (vw div pw),
                  proj = nn_Conv3d in_channels embed_dim patch_size patch_size\<rparr>)"

subsection \<open>\<open>MultiHeadAttention3D\<close>, \<open>MLP\<close>, \<open>TransformerBlock\<close>\<close>

record MultiHeadAttention3D =
  mha_num_heads :: nat
  head_dim :: nat
  qkv :: module
  attn_drop :: module
  attn_proj :: module
  proj_drop :: module

text \<open>
  Lines 42 to 51. \<open>dim // num_heads\<close> raises on zero heads, and \<open>head_dim ** -0.5\<close> raises
  ZeroDivisionError when \<open>head_dim\<close> is zero. The value of \<open>scale\<close> is not kept: no claim
  reads it.
\<close>

definition MultiHeadAttention3D_init ::
  "nat \<Rightarrow> nat \<Rightarrow> bool \<Rightarrow> rat \<Rightarrow> rat \<Rightarrow> exn + MultiHeadAttention3D" where
  "MultiHeadAttention3D_init dm num_heads qkv_bias attn_drop_p proj_drop_p =
     (if num_heads = 0 then Inl ZeroDivisionError
      else if dm div num_heads = 0 then Inl ZeroDivisionError
      else case nn_Dropout attn_drop_p of
             Inl e \<Rightarrow> Inl e
           | Inr ad \<Rightarrow>
               (case nn_Dropout proj_drop_p of
                  Inl e \<Rightarrow> Inl e
                | Inr pd \<Rightarrow>
                    Inr \<lparr>mha_num_heads = num_heads,
                         head_dim = dm div num_heads,
                         qkv = nn_Linear dm (dm * 3) qkv_bias,
                         attn_drop = ad,
                         attn_proj = nn_Linear dm dm True,
                         proj_drop = pd\<rparr>))"

record MLP =
  fc1 :: module
  act :: module
  fc2 :: module
  drop_mod :: module

text \<open>
  Lines 78 to 84. \<open>hidden_features or in_features\<close> takes \<open>in_features\<close> for \<open>None\<close> and
  for 0; a negative width makes \<open>nn.Linear\<close> raise. The attribute \<open>drop\<close> is the field
  \<open>drop_mod\<close> here, and \<open>norm\<close> of the model is \<open>norm_mod\<close>: both names are taken in HOL.
\<close>

definition MLP_init :: "nat \<Rightarrow> int option \<Rightarrow> rat \<Rightarrow> exn + MLP" where
  "MLP_init in_features hidden_features drop_p =
     (let out_features = in_features;
          hidden = (case hidden_features of
                      None \<Rightarrow> int in_features
                    | Some h \<Rightarrow> if h = 0 then int in_features else h)
      in if hidden < 0 then Inl RuntimeError
         else case nn_Dropout drop_p of
                Inl e \<Rightarrow> Inl e
              | Inr d \<Rightarrow>
                  Inr \<lparr>fc1 = nn_Linear in_features (nat hidden) True,
                       act = GELU,
                       fc2 = nn_Linear (nat hidden) out_features True,
                       drop_mod = d\<rparr>)"

record TransformerBlock =
  norm1 :: module
  attn :: MultiHeadAttention3D
  norm2 :: module
  mlp :: MLP

definition py_int :: "rat \<Rightarrow> int" where
  \<comment> \<open>\<open>int(x)\<close> of a float: truncation towards zero\<close>
  "py_int x = (if 0 \<le> x then \<lfloor>x\<rfloor> else \<lceil>x\<rceil>)"

definition TransformerBlock_init ::
  "nat \<Rightarrow> nat \<Rightarrow> rat \<Rightarrow> bool \<Rightarrow> rat \<Rightarrow> rat \<Rightarrow> exn + TransformerBlock" where
  "TransformerBlock_init dm num_heads mlp_ratio qkv_bias drop_p attn_drop_p =
     (case MultiHeadAttention3D_init dm num_heads qkv_bias attn_drop_p drop_p of
        Inl e \<Rightarrow> Inl e
      | Inr a \<Rightarrow>
          (let mlp_hidden_dim = py_int (of_nat dm * mlp_ratio)
           in case MLP_init dm (Some mlp_hidden_dim) drop_p of
                Inl e \<Rightarrow> Inl e
              | Inr m \<Rightarrow>
                  Inr \<lparr>norm1 = nn_LayerNorm dm, attn = a, norm2 = nn_LayerNorm dm, mlp = m\<rparr>))"

subsection \<open>\<open>VisionTransformer3D\<close>\<close>

text \<open>The arguments of \<open>VisionTransformer3D.__init__\<close> and their defaults (lines 139 to 142).\<close>

record vit_args =
  volume_size :: "nat \<times> nat \<times> nat"
  patch_size :: "nat \<times> nat \<times> nat"
  in_channels :: nat
  num_classes :: nat
  embed_dim :: nat
  depth :: nat
  num_heads :: nat
  mlp_ratio :: rat
  qkv_bias :: bool
  drop_rate :: rat
  attn_drop_rate :: rat
  use_checkpointing :: bool

definition default_args :: vit_args where
  "default_args =
     \<lparr>volume_size = (96, 224, 224), patch_size = (16, 16, 16), in_channels = 1,
      num_classes = 18, embed_dim = 768, depth = 12, num_heads = 12, mlp_ratio = 4,
      qkv_bias = True, drop_rate = 0, attn_drop_rate = 0, use_checkpointing = False\<rparr>"

record VisionTransformer3D =
  vit_num_classes :: nat
  vit_embed_dim :: nat
  vit_use_checkpointing :: bool
  patch_embed :: PatchEmbed3D
  cls_token :: param
  pos_embed :: param
  pos_drop :: module
  blocks :: "TransformerBlock list"
  norm_mod :: module
  head :: "module list"
  training :: bool

text \<open>Lines 162 to 167: one block per index of \<open>range(depth)\<close>, each constructed anew.\<close>

fun make_blocks :: "nat \<Rightarrow> vit_args \<Rightarrow> exn + TransformerBlock list" where
  "make_blocks 0 a = Inr []"
| "make_blocks (Suc n) a =
     (case TransformerBlock_init (embed_dim a) (num_heads a) (mlp_ratio a) (qkv_bias a)
             (drop_rate a) (attn_drop_rate a) of
        Inl e \<Rightarrow> Inl e
      | Inr b \<Rightarrow> (case make_blocks n a of Inl e \<Rightarrow> Inl e | Inr bs \<Rightarrow> Inr (b # bs)))"

text \<open>
  Lines 187 to 194, the body of the loop over \<open>self.modules()\<close>: two \<open>isinstance\<close> tests,
  for \<open>nn.Linear\<close> and for \<open>nn.LayerNorm\<close>; a module of any other class is left as it is.
\<close>

definition std :: rat where
  "std = 2 / 100"

fun set_init :: "init \<Rightarrow> param \<Rightarrow> param" where
  "set_init i (Param s j) = Param s i"

fun init_module :: "module \<Rightarrow> module" where
  "init_module (Linear w b) =
     Linear (set_init (Trunc_normal std) w) (map_option (set_init (Constant 0)) b)"
| "init_module (LayerNorm w b) = LayerNorm (set_init (Constant 1) w) (set_init (Constant 0) b)"
| "init_module m = m"

text \<open>\<open>self.modules()\<close> reaches every module of the tree; the loop body runs on each.\<close>

definition init_PatchEmbed3D :: "PatchEmbed3D \<Rightarrow> PatchEmbed3D" where
  "init_PatchEmbed3D pe = pe\<lparr>proj := init_module (proj pe)\<rparr>"

definition init_MultiHeadAttention3D :: "MultiHeadAttention3D \<Rightarrow> MultiHeadAttention3D" where
  "init_MultiHeadAttention3D a =
     a\<lparr>qkv := init_module (qkv a), attn_drop := init_module (attn_drop a),
       attn_proj := init_module (attn_proj a), proj_drop := init_module (proj_drop a)\<rparr>"

definition init_MLP :: "MLP \<Rightarrow> MLP" where
  "init_MLP m =
     m\<lparr>fc1 := init_module (fc1 m), act := init_module (act m),
       fc2 := init_module (fc2 m), drop_mod := init_module (drop_mod m)\<rparr>"

definition init_TransformerBlock :: "TransformerBlock \<Rightarrow> TransformerBlock" where
  "init_TransformerBlock b =
     b\<lparr>norm1 := init_module (norm1 b), attn := init_MultiHeadAttention3D (attn b),
       norm2 := init_module (norm2 b), mlp := init_MLP (mlp b)\<rparr>"

definition init_weights :: "VisionTransformer3D \<Rightarrow> VisionTransformer3D" where
  \<comment> \<open>\<open>_init_weights\<close>, lines 183 to 194\<close>
  "init_weights m =
     m\<lparr>pos_embed := set_init (Trunc_normal std) (pos_embed m),
       cls_token := set_init (Trunc_normal std) (cls_token m),
       patch_embed := init_PatchEmbed3D (patch_embed m),
       pos_drop := init_module (pos_drop m),
       blocks := map init_TransformerBlock (blocks m),
       norm_mod := init_module (norm_mod m),
       head := map init_module (head m)\<rparr>"

text \<open>
  \<open>__init__\<close>, lines 143 to 179. The head is \<open>nn.Sequential\<close> of four modules written with
  the literals 256 and 0.5. A new module is in training mode.
\<close>

definition VisionTransformer3D_init :: "vit_args \<Rightarrow> exn + VisionTransformer3D" where
  "VisionTransformer3D_init a =
     (case PatchEmbed3D_init (volume_size a) (patch_size a) (in_channels a) (embed_dim a) of
        Inl e \<Rightarrow> Inl e
      | Inr pe \<Rightarrow>
          (let num_patches = n_patches pe in
           case nn_Dropout (drop_rate a) of
             Inl e \<Rightarrow> Inl e
           | Inr pdrop \<Rightarrow>
               (case make_blocks (depth a) a of
                  Inl e \<Rightarrow> Inl e
                | Inr bs \<Rightarrow>
                    (case nn_Dropout (5 / 10) of
                       Inl e \<Rightarrow> Inl e
                     | Inr hdrop \<Rightarrow>
                         Inr (init_weights
                           \<lparr>vit_num_classes = num_classes a,
                            vit_embed_dim = embed_dim a,
                            vit_use_checkpointing = use_checkpointing a,
                            patch_embed = pe,
                            cls_token = Param [1, 1, embed_dim a] (Constant 0),
                            pos_embed = Param [1, num_patches + 1, embed_dim a] (Constant 0),
                            pos_drop = pdrop,
                            blocks = bs,
                            norm_mod = nn_LayerNorm (embed_dim a),
                            head = [nn_Linear (embed_dim a) 256 True, ReLU, hdrop,
                                    nn_Linear 256 (num_classes a) True],
                            training = True\<rparr>)))))"

subsection \<open>The parameters of a model\<close>

text \<open>
  \<open>named_parameters()\<close>, every parameter with the kind of place that owns it, in the
  order in which the attributes were set.
\<close>

datatype owner =
    Cls_token | Pos_embed | Conv_weight | Conv_bias
  | Linear_weight | Linear_bias | Norm_weight | Norm_bias

fun module_parameters :: "module \<Rightarrow> (owner \<times> param) list" where
  "module_parameters (Linear w b) =
     (Linear_weight, w) # (case b of None \<Rightarrow> [] | Some p \<Rightarrow> [(Linear_bias, p)])"
| "module_parameters (LayerNorm w b) = [(Norm_weight, w), (Norm_bias, b)]"
| "module_parameters (Conv3d w b st) = [(Conv_weight, w), (Conv_bias, b)]"
| "module_parameters m = []"

definition attn_parameters :: "MultiHeadAttention3D \<Rightarrow> (owner \<times> param) list" where
  "attn_parameters a =
     module_parameters (qkv a) @ module_parameters (attn_drop a)
       @ module_parameters (attn_proj a) @ module_parameters (proj_drop a)"

definition mlp_parameters :: "MLP \<Rightarrow> (owner \<times> param) list" where
  "mlp_parameters m =
     module_parameters (fc1 m) @ module_parameters (act m)
       @ module_parameters (fc2 m) @ module_parameters (drop_mod m)"

definition block_parameters :: "TransformerBlock \<Rightarrow> (owner \<times> param) list" where
  "block_parameters b =
     module_parameters (norm1 b) @ attn_parameters (attn b)
       @ module_parameters (norm2 b) @ mlp_parameters (mlp b)"

definition named_parameters :: "VisionTransformer3D \<Rightarrow> (owner \<times> param) list" where
  "named_parameters m =
     [(Cls_token, cls_token m), (Pos_embed, pos_embed m)]
       @ module_parameters (proj (patch_embed m))
       @ module_parameters (pos_drop m)
       @ concat (map block_parameters (blocks m))
       @ module_parameters (norm_mod m)
       @ concat (map module_parameters (head m))"

definition numel :: "param \<Rightarrow> nat" where
  "numel p = prod_list (pshape p)"

definition count_parameters :: "VisionTransformer3D \<Rightarrow> nat" where
  \<comment> \<open>\<open>sum(p.numel() for p in model.parameters())\<close>\<close>
  "count_parameters m = sum_list (map (numel \<circ> snd) (named_parameters m))"

subsection \<open>The forward pass\<close>

text \<open>
  The arithmetic of the layers is floating-point tensor code of torch: it is a parameter.
  A layer maps the activations \<open>'x\<close>, may draw from the random state \<open>'r\<close> (dropout in
  training mode) and may raise.
\<close>

type_synonym ('x, 'r) op = "'x \<Rightarrow> 'r \<Rightarrow> (exn + 'x) \<times> 'r"

record ('x, 'r) layers =
  patch_embed_forward :: "PatchEmbed3D \<Rightarrow> ('x, 'r) op"
  cat_cls_token :: "param \<Rightarrow> ('x, 'r) op"
  add_pos_embed :: "param \<Rightarrow> ('x, 'r) op"
  dropout_forward :: "module \<Rightarrow> bool \<Rightarrow> ('x, 'r) op"
  block_forward :: "TransformerBlock \<Rightarrow> bool \<Rightarrow> ('x, 'r) op"
  norm_forward :: "module \<Rightarrow> ('x, 'r) op"
  select_cls :: "('x, 'r) op"
  head_forward :: "module list \<Rightarrow> bool \<Rightarrow> ('x, 'r) op"

definition then_op :: "('x, 'r) op \<Rightarrow> ('x, 'r) op \<Rightarrow> ('x, 'r) op" where
  "then_op f g x r = (case f x r of (Inl e, r') \<Rightarrow> (Inl e, r') | (Inr y, r') \<Rightarrow> g y r')"

fun run_blocks :: "(TransformerBlock \<Rightarrow> ('x, 'r) op) \<Rightarrow> TransformerBlock list \<Rightarrow> ('x, 'r) op" where
  "run_blocks f [] x r = (Inr x, r)"
| "run_blocks f (b # bs) x r =
     (case f b x r of (Inl e, r') \<Rightarrow> (Inl e, r') | (Inr y, r') \<Rightarrow> run_blocks f bs y r')"

definition checkpoint :: "('x, 'r) op \<Rightarrow> ('x, 'r) op" where
  \<comment> \<open>Modelled from the spec: \<open>torch.utils.checkpoint.checkpoint\<close> is library code that the
      repository does not hold. The spec, 4.2: the wrapped forward computation does not
      retain its intermediate activations, which are recomputed on demand; strictly a
      performance and memory policy, not a behavior change.\<close>
  "checkpoint f = f"

text \<open>
  \<open>forward_features\<close>, lines 199 to 224. The wrapper of line 215 is the parameter \<open>ckpt\<close>,
  so that the path taken shows in the result.
\<close>

definition forward_features ::
  "('x, 'r) layers \<Rightarrow> (('x, 'r) op \<Rightarrow> ('x, 'r) op) \<Rightarrow> VisionTransformer3D \<Rightarrow> ('x, 'r) op" where
  "forward_features L ckpt m =
     then_op (patch_embed_forward L (patch_embed m))
    (then_op (cat_cls_token L (cls_token m))
    (then_op (add_pos_embed L (pos_embed m))
    (then_op (dropout_forward L (pos_drop m) (training m))
    (then_op (if vit_use_checkpointing m \<and> training m
              then run_blocks (\<lambda>b. ckpt (block_forward L b (training m))) (blocks m)
              else run_blocks (\<lambda>b. block_forward L b (training m)) (blocks m))
    (then_op (norm_forward L (norm_mod m))
             (select_cls L))))))"

definition forward ::
  "('x, 'r) layers \<Rightarrow> (('x, 'r) op \<Rightarrow> ('x, 'r) op) \<Rightarrow> VisionTransformer3D \<Rightarrow> ('x, 'r) op" where
  "forward L ckpt m = then_op (forward_features L ckpt m) (head_forward L (head m) (training m))"

subsection \<open>The preset factories\<close>

text \<open>
  \<open>**kwargs\<close>: the keyword arguments of the constructor that a caller may add
  (\<open>num_classes\<close> and \<open>use_checkpointing\<close> are parameters of the factory itself).
\<close>

record vit_kwargs =
  kw_volume_size :: "(nat \<times> nat \<times> nat) option"
  kw_patch_size :: "(nat \<times> nat \<times> nat) option"
  kw_in_channels :: "nat option"
  kw_embed_dim :: "nat option"
  kw_depth :: "nat option"
  kw_num_heads :: "nat option"
  kw_mlp_ratio :: "rat option"
  kw_qkv_bias :: "bool option"
  kw_drop_rate :: "rat option"
  kw_attn_drop_rate :: "rat option"

definition no_kwargs :: vit_kwargs where
  "no_kwargs =
     \<lparr>kw_volume_size = None, kw_patch_size = None, kw_in_channels = None, kw_embed_dim = None,
      kw_depth = None, kw_num_heads = None, kw_mlp_ratio = None, kw_qkv_bias = None,
      kw_drop_rate = None, kw_attn_drop_rate = None\<rparr>"

definition or_default :: "'a option \<Rightarrow> 'a \<Rightarrow> 'a" where
  "or_default k d = (case k of None \<Rightarrow> d | Some v \<Rightarrow> v)"

definition update_kwargs :: "vit_kwargs \<Rightarrow> vit_args \<Rightarrow> vit_args" where
  \<comment> \<open>\<open>model_kwargs.update(kwargs)\<close>: a key of \<open>kwargs\<close> wins\<close>
  "update_kwargs k a =
     a\<lparr>volume_size := or_default (kw_volume_size k) (volume_size a),
       patch_size := or_default (kw_patch_size k) (patch_size a),
       in_channels := or_default (kw_in_channels k) (in_channels a),
       embed_dim := or_default (kw_embed_dim k) (embed_dim a),
       depth := or_default (kw_depth k) (depth a),
       num_heads := or_default (kw_num_heads k) (num_heads a),
       mlp_ratio := or_default (kw_mlp_ratio k) (mlp_ratio a),
       qkv_bias := or_default (kw_qkv_bias k) (qkv_bias a),
       drop_rate := or_default (kw_drop_rate k) (drop_rate a),
       attn_drop_rate := or_default (kw_attn_drop_rate k) (attn_drop_rate a)\<rparr>"

definition vit_tiny_3d :: "nat \<Rightarrow> bool \<Rightarrow> vit_kwargs \<Rightarrow> exn + VisionTransformer3D" where
  "vit_tiny_3d nc uc kwargs =
     VisionTransformer3D_init (update_kwargs kwargs
       (default_args\<lparr>embed_dim := 192, depth := 12, num_heads := 3, mlp_ratio := 4,
                     num_classes := nc, use_checkpointing := uc\<rparr>))"

definition vit_small_3d :: "nat \<Rightarrow> bool \<Rightarrow> vit_kwargs \<Rightarrow> exn + VisionTransformer3D" where
  "vit_small_3d nc uc kwargs =
     VisionTransformer3D_init (update_kwargs kwargs
       (default_args\<lparr>embed_dim := 384, depth := 12, num_heads := 6, mlp_ratio := 4,
                     num_classes := nc, use_checkpointing := uc\<rparr>))"

definition vit_base_3d :: "nat \<Rightarrow> bool \<Rightarrow> vit_kwargs \<Rightarrow> exn + VisionTransformer3D" where
  "vit_base_3d nc uc kwargs =
     VisionTransformer3D_init (update_kwargs kwargs
       (default_args\<lparr>embed_dim := 768, depth := 12, num_heads := 12, mlp_ratio := 4,
                     num_classes := nc, use_checkpointing := uc\<rparr>))"

definition vit_large_3d :: "nat \<Rightarrow> bool \<Rightarrow> vit_kwargs \<Rightarrow> exn + VisionTransformer3D" where
  "vit_large_3d nc uc kwargs =
     VisionTransformer3D_init (update_kwargs kwargs
       (default_args\<lparr>embed_dim := 1024, depth := 24, num_heads := 16, mlp_ratio := 4,
                     num_classes := nc, use_checkpointing := uc\<rparr>))"

section \<open>Properties of \<open>preprocess_ct_volume_monai\<close>\<close>

lemma check_shape_shape:
  "check_shape target t = (Inr t', lg) \<Longrightarrow> shape t' = 1 # target"
  by (auto simp: check_shape_def zeros_def shape_at0_def split: if_splits list.splits sum.splits)

lemma try_body_shape:
  "try_body nii_path pl target w = (Inr t, lg, w') \<Longrightarrow> shape t = 1 # target"
  by (auto simp: try_body_def split: prod.splits sum.splits item.splits dest: check_shape_shape)

lemma preprocess_total:
  "\<exists>t lg w'. preprocess_ct_volume_monai nii_path pl target w = (Inr t, lg, w')
      \<and> shape t = 1 # target"
proof (cases "try_body nii_path pl target w")
  case (fields r lg w')
  show ?thesis
  proof (cases r)
    case (Inl e)
    with fields show ?thesis by (simp add: preprocess_ct_volume_monai_def zeros_def)
  next
    case (Inr t)
    with fields try_body_shape[of nii_path pl target w t lg w'] show ?thesis
      by (simp add: preprocess_ct_volume_monai_def)
  qed
qed

lemma check_shape_mismatch:
  "shape t \<noteq> 1 # target \<Longrightarrow>
   check_shape target t = (Inl IndexError, []) \<or>
   check_shape target t = (Inr (zeros (1 # target)), [Error_shape_mismatch (shape t) target])"
  by (cases "shape t") (auto simp: check_shape_def shape_at0_def)

text \<open>
  C1. Whatever the pipeline does on the path, \<open>preprocess_ct_volume_monai\<close> returns a
  tensor (never an exception) and its shape is \<open>(1, *target_shape_dhw)\<close>. When the
  pipeline raises (a missing or unreadable file, any exception inside the chain), or any
  later line of the \<open>try\<close> raises, the result is the zero tensor of that shape and the
  exception is logged as an error. When the image, after lines 118 to 126 have dropped
  its metadata and settled its channel dimension, has not the shape
  \<open>(1, *target_shape_dhw)\<close>, the result is the zero tensor too and the last log record is
  an error.
\<close>

theorem preprocess_ct_volume_monai_fail_soft:
  fixes pl :: "'w pipeline"
  shows
  "(\<exists>t lg w'. preprocess_ct_volume_monai nii_path pl target w = (Inr t, lg, w')
       \<and> shape t = 1 # target)
   \<and> (\<forall>e w0. pl nii_path w = (Inl e, w0) \<longrightarrow>
         preprocess_ct_volume_monai nii_path pl target w
           = (Inr (zeros (1 # target)), [Error_processing e], w0))
   \<and> (\<forall>e lg w0. try_body nii_path pl target w = (Inl e, lg, w0) \<longrightarrow>
         preprocess_ct_volume_monai nii_path pl target w
           = (Inr (zeros (1 # target)), lg @ [Error_processing e], w0))
   \<and> (\<forall>p w0 t lg. pl nii_path w = (Inr (Img p), w0) \<longrightarrow> fix_channel p = (Inr t, lg) \<longrightarrow>
         shape t \<noteq> 1 # target \<longrightarrow>
         (\<exists>lg'. preprocess_ct_volume_monai nii_path pl target w
                  = (Inr (zeros (1 # target)), lg', w0)
               \<and> lg' \<noteq> [] \<and> level (last lg') = ERROR))"
proof (intro conjI allI impI)
  show "\<exists>t lg w'. preprocess_ct_volume_monai nii_path pl target w = (Inr t, lg, w')
          \<and> shape t = 1 # target"
    by (rule preprocess_total)
next
  fix e w0 assume "pl nii_path w = (Inl e, w0)"
  then show "preprocess_ct_volume_monai nii_path pl target w
           = (Inr (zeros (1 # target)), [Error_processing e], w0)"
    by (simp add: preprocess_ct_volume_monai_def try_body_def)
next
  fix e lg w0 assume "try_body nii_path pl target w = (Inl e, lg, w0)"
  then show "preprocess_ct_volume_monai nii_path pl target w
           = (Inr (zeros (1 # target)), lg @ [Error_processing e], w0)"
    by (simp add: preprocess_ct_volume_monai_def)
next
  fix p w0 t lg
  assume a: "pl nii_path w = (Inr (Img p), w0)" "fix_channel p = (Inr t, lg)"
    "shape t \<noteq> 1 # target"
  from check_shape_mismatch[OF a(3)] a(1,2)
  show "\<exists>lg'. preprocess_ct_volume_monai nii_path pl target w
                  = (Inr (zeros (1 # target)), lg', w0)
             \<and> lg' \<noteq> [] \<and> level (last lg') = ERROR"
    by (auto simp: preprocess_ct_volume_monai_def try_body_def)
qed

text \<open>
  At a missing file (the loader raises) and at a two-dimensional image (a shape
  mismatch), with the target shape (2, 2, 2).
\<close>

theorem preprocess_ct_volume_monai_fail_soft_witness:
  "preprocess_ct_volume_monai ''missing.nii.gz''
      (\<lambda>p w. (Inl (Raised ''FileNotFoundError''), w)) [2, 2, 2] ()
     = (Inr (zeros [1, 2, 2, 2]), [Error_processing (Raised ''FileNotFoundError'')], ())
   \<and> preprocess_ct_volume_monai ''flat.nii.gz''
      (\<lambda>p w. (Inr (Img \<lparr>is_meta = True, shape = [1, 2], elems = [5, 7]\<rparr>), w)) [2, 2, 2] ()
     = (Inr (zeros [1, 2, 2, 2]), [Error_shape_mismatch [1, 2] [2, 2, 2]], ())"
  using preprocess_ct_volume_monai_fail_soft
          [of "''missing.nii.gz''" "\<lambda>p w. (Inl (Raised ''FileNotFoundError''), w)" "[2, 2, 2]" "()"]
        preprocess_ct_volume_monai_fail_soft
          [of "''flat.nii.gz''"
              "\<lambda>p w. (Inr (Img \<lparr>is_meta = True, shape = [1, 2], elems = [5, 7]\<rparr>), w)"
              "[2, 2, 2]" "()"]
  by (simp add: preprocess_ct_volume_monai_def try_body_def fix_channel_def check_shape_def
      ndim_def as_tensor_def)

text \<open>
  C9. When the pipeline returns a four-dimensional image whose channel dimension \<open>c\<close> is
  greater than 1, the function logs a warning and keeps channel 0 under a new channel
  dimension of 1. With the spatial shape equal to the target it returns that tensor, with
  no error logged and no zero tensor put in its place; with another spatial shape the
  shape check of line 128 still applies.
\<close>

theorem preprocess_ct_volume_monai_multi_channel:
  fixes pl :: "'w pipeline"
  assumes "pl nii_path w = (Inr (Img p), w0)"
    and "shape p = c # s" and "length s = 3" and "1 < c"
  shows "preprocess_ct_volume_monai nii_path pl target w =
     (if s = target
      then (Inr \<lparr>is_meta = False, shape = 1 # target,
                 elems = take (prod_list target) (elems p)\<rparr>,
            [Warning_channel_dim (shape p)], w0)
      else (Inr (zeros (1 # target)),
            [Warning_channel_dim (shape p), Error_shape_mismatch (1 # s) target], w0))"
  using assms
  by (auto simp: preprocess_ct_volume_monai_def try_body_def fix_channel_def Let_def ndim_def
      as_tensor_def select0_def unsqueeze0_def check_shape_def shape_at0_def)

theorem preprocess_ct_volume_monai_multi_channel_witness:
  "preprocess_ct_volume_monai ''two_channels.nii.gz''
      (\<lambda>p w. (Inr (Img \<lparr>is_meta = True, shape = [2, 1, 1, 2], elems = [1, 2, 3, 4]\<rparr>), w))
      [1, 1, 2] ()
     = (Inr \<lparr>is_meta = False, shape = [1, 1, 1, 2], elems = [1, 2]\<rparr>,
        [Warning_channel_dim [2, 1, 1, 2]], ())"
  using preprocess_ct_volume_monai_multi_channel
          [of "\<lambda>p w. (Inr (Img \<lparr>is_meta = True, shape = [2, 1, 1, 2], elems = [1, 2, 3, 4]\<rparr>), w)"
              "''two_channels.nii.gz''" "()"
              "\<lparr>is_meta = True, shape = [2, 1, 1, 2], elems = [1, 2, 3, 4]\<rparr>" "()"
              2 "[1, 1, 2]" "[1, 1, 2]"]
  by simp

section \<open>Properties of the preprocessing pipeline\<close>

lemma run_compose_append:
  "run_compose lib (xs @ ys) x w =
     (case run_compose lib xs x w of
        (Inl e, w') \<Rightarrow> (Inl e, w')
      | (Inr y, w') \<Rightarrow> run_compose lib ys y w')"
  by (induction xs arbitrary: x w) (auto split: prod.splits sum.splits)

lemma py_insert_before_last:
  assumes "xs \<noteq> []"
  shows "py_insert (- 1) x xs = butlast xs @ [x, last xs]"
proof -
  from assms obtain ys z where xs: "xs = ys @ [z]" by (cases xs rule: rev_cases) auto
  have "nat (max 0 (int (length xs) + - 1)) = length ys" by (simp add: xs)
  then show ?thesis by (simp add: py_insert_def Let_def xs)
qed

lemma preprocess_depends_on_item:
  assumes "pl1 path w = (r, w1)" "pl2 path w = (r, w2)"
  shows "fst (preprocess_ct_volume_monai path pl1 target w) = fst (preprocess_ct_volume_monai path pl2 target w)
     \<and> fst (snd (preprocess_ct_volume_monai path pl1 target w)) = fst (snd (preprocess_ct_volume_monai path pl2 target w))"
  using assms
  by (auto simp: preprocess_ct_volume_monai_def try_body_def split: sum.splits prod.splits item.splits)

text \<open>
  C8. Take the pipeline built without \<open>save_transformed_path\<close> and the one built with it,
  from the same other arguments. The second is the first with \<open>SaveImaged\<close> put before
  its last transform, and that last transform is the type cast \<open>EnsureTyped\<close>. Whenever
  the pipeline with the save step processes a path successfully, the pipeline without it
  returns the same image on that path, and \<open>preprocess_ct_volume_monai\<close> returns the same
  tensor and the same log with either. (\<open>SaveImaged\<close> is modelled from the spec.)
\<close>

theorem save_path_keeps_tensor:
  fixes lib :: "'w monai"
  assumes none: "create_monai_preprocessing_pipeline lib sp sh lo hi ax None w0 = (Inr ts0, w0')"
    and some: "create_monai_preprocessing_pipeline lib sp sh lo hi ax (Some dir) w1 = (Inr ts1, w1')"
    and run: "compose_call lib ts1 path w = (Inr x, w')"
  shows "ts1 = butlast ts0 @ [SaveImaged dir ''_transformed'' False False True, last ts0]
     \<and> last ts0 = EnsureTyped False
     \<and> (\<exists>w''. compose_call lib ts0 path w = (Inr x, w''))
     \<and> fst (preprocess_ct_volume_monai path (compose_call lib ts1) target w)
         = fst (preprocess_ct_volume_monai path (compose_call lib ts0) target w)
     \<and> fst (snd (preprocess_ct_volume_monai path (compose_call lib ts1) target w))
         = fst (snd (preprocess_ct_volume_monai path (compose_call lib ts0) target w))"
proof -
  let ?pre = "butlast (base_transforms sp sh lo hi ax)"
  let ?save = "SaveImaged dir ''_transformed'' False False True"
  have ts0: "ts0 = base_transforms sp sh lo hi ax"
    using none by (simp add: create_monai_preprocessing_pipeline_def)
  have ne: "base_transforms sp sh lo hi ax \<noteq> []" and lst: "last ts0 = EnsureTyped False"
    by (simp_all add: ts0 base_transforms_def)
  have ts1: "ts1 = butlast ts0 @ [?save, last ts0]"
    using some py_insert_before_last[OF ne, of ?save]
    by (auto simp: create_monai_preprocessing_pipeline_def ts0 split: prod.splits sum.splits)
  have ts0': "ts0 = ?pre @ [EnsureTyped False]"
    using ne lst ts0 by (metis append_butlast_last_id)
  have ts1': "ts1 = ?pre @ [?save, EnsureTyped False]"
    using ts1 lst ts0 by simp
  obtain r0 v where pre: "run_compose lib ?pre (PathStr path) w = (r0, v)"
    by (cases "run_compose lib ?pre (PathStr path) w")
  from run obtain y v' where
    y: "r0 = Inr y" and sv: "image_writer lib dir ''_transformed'' y v = (Inr (), v')"
    and et: "ensure_type lib False y = Inr x"
    unfolding compose_call_def ts1' run_compose_append pre
    by (auto simp: save_imaged_def split: sum.splits prod.splits)
  have r0: "compose_call lib ts0 path w = (Inr x, v)"
    unfolding compose_call_def
    by (subst ts0', simp only: run_compose_append pre y) (simp add: et)
  from preprocess_depends_on_item[of "compose_call lib ts1" path w "Inr x" w' "compose_call lib ts0" v target, OF run r0]
    r0 ts1 lst show ?thesis by blast
qed

text \<open>
  A run on a store that is the list of directories written to: the loader gives a
  two-voxel image, the writer records the directory. Both pipelines return the voxels
  0 and 1; only the store differs.
\<close>

theorem save_path_keeps_tensor_witness:
  "compose_call
     \<lparr>load_image = (\<lambda>io cf rd x w. (Inr (Img \<lparr>is_meta = True, shape = [2], elems = [- 1000, 400]\<rparr>), w)),
      ensure_channel_first = (\<lambda>cd x. Inr x),
      orientation = (\<lambda>ax x. Inr x),
      spacing = (\<lambda>pd md ac x. Inr x),
      resize = (\<lambda>sz md x. Inr x),
      ensure_type = (\<lambda>tm x. Inr x),
      image_writer = (\<lambda>d pf x w. (Inr (), d # w)),
      mkdir = (\<lambda>d w. (Inr (), w))\<rparr>
     (py_insert (- 1) (SaveImaged ''out'' ''_transformed'' False False True)
        (base_transforms [1, 1, 1] [2] (- 1000) 400 ''LPS''))
     ''a.nii.gz'' []
   = (Inr (Img \<lparr>is_meta = True, shape = [2], elems = [0, 1]\<rparr>), [''out''])
   \<and> compose_call
     \<lparr>load_image = (\<lambda>io cf rd x w. (Inr (Img \<lparr>is_meta = True, shape = [2], elems = [- 1000, 400]\<rparr>), w)),
      ensure_channel_first = (\<lambda>cd x. Inr x),
      orientation = (\<lambda>ax x. Inr x),
      spacing = (\<lambda>pd md ac x. Inr x),
      resize = (\<lambda>sz md x. Inr x),
      ensure_type = (\<lambda>tm x. Inr x),
      image_writer = (\<lambda>d pf x w. (Inr (), d # w)),
      mkdir = (\<lambda>d w. (Inr (), w))\<rparr>
     (base_transforms [1, 1, 1] [2] (- 1000) 400 ''LPS'')
     ''a.nii.gz'' []
   = (Inr (Img \<lparr>is_meta = True, shape = [2], elems = [0, 1]\<rparr>), [])"
proof -
  let ?lib = "\<lparr>load_image = (\<lambda>io cf rd x w. (Inr (Img \<lparr>is_meta = True, shape = [2], elems = [- 1000, 400]\<rparr>), w)),
      ensure_channel_first = (\<lambda>cd x. Inr x),
      orientation = (\<lambda>ax x. Inr x),
      spacing = (\<lambda>pd md ac x. Inr x),
      resize = (\<lambda>sz md x. Inr x),
      ensure_type = (\<lambda>tm x. Inr x),
      image_writer = (\<lambda>d pf x w. (Inr (), d # w)),
      mkdir = (\<lambda>d w. (Inr (), w))\<rparr> :: string list monai"
  let ?ts0 = "base_transforms [1, 1, 1] [2] (- 1000) 400 ''LPS''"
  let ?ts1 = "py_insert (- 1) (SaveImaged ''out'' ''_transformed'' False False True) ?ts0"
  let ?x = "Img \<lparr>is_meta = True, shape = [2], elems = [0, 1]\<rparr>"
  have none: "create_monai_preprocessing_pipeline ?lib [1, 1, 1] [2] (- 1000) 400 ''LPS'' None []
      = (Inr ?ts0, [])"
    by (simp add: create_monai_preprocessing_pipeline_def)
  have some: "create_monai_preprocessing_pipeline ?lib [1, 1, 1] [2] (- 1000) 400 ''LPS''
      (Some ''out'') [] = (Inr ?ts1, [])"
    by (simp add: create_monai_preprocessing_pipeline_def)
  have run: "compose_call ?lib ?ts1 ''a.nii.gz'' [] = (Inr ?x, [''out''])"
    by (simp add: compose_call_def base_transforms_def py_insert_def save_imaged_def
        scale_intensity_ranged_def scale_intensity_range_def)
  from save_path_keeps_tensor[OF none some run, of "[2]"]
  obtain v where v: "compose_call ?lib ?ts0 ''a.nii.gz'' [] = (Inr ?x, v)" by blast
  have "snd (compose_call ?lib ?ts0 ''a.nii.gz'' []) = []"
    by (simp add: compose_call_def base_transforms_def scale_intensity_ranged_def)
  with v have "compose_call ?lib ?ts0 ''a.nii.gz'' [] = (Inr ?x, [])" by simp
  with run show ?thesis by simp
qed

lemma scale_range:
  assumes "a_min < a_max"
  shows "0 \<le> scale_intensity_range a_min a_max 0 1 True x"
    and "scale_intensity_range a_min a_max 0 1 True x \<le> 1"
    and "x \<le> a_min \<Longrightarrow> scale_intensity_range a_min a_max 0 1 True x = 0"
    and "a_max \<le> x \<Longrightarrow> scale_intensity_range a_min a_max 0 1 True x = 1"
  using assms
  by (auto simp: scale_intensity_range_def Let_def max_def min_def divide_le_eq)

text \<open>
  C5. The fifth transform of the pipeline is \<open>ScaleIntensityRanged\<close> with the range
  \<open>[clip_hu_min, clip_hu_max]\<close>, the output range [0, 1] and clipping on. With
  \<open>clip_hu_min < clip_hu_max\<close> it maps every voxel \<open>x\<close> of an image to
  \<open>(clip(x) - clip_hu_min) / (clip_hu_max - clip_hu_min)\<close>, where \<open>clip\<close> brings \<open>x\<close> into the
  range: the minimum goes to 0, the maximum to 1, a voxel below the minimum to 0, one above
  the maximum to 1, and every result lies in [0, 1]. With -1000 and 400 the voxels -1000,
  400 and -1600 go to 0, 1 and 0. (The arithmetic of the transform is modelled from the
  spec, over the rationals.)
\<close>

theorem intensity_normalization:
  assumes "clip_hu_min < clip_hu_max"
  shows "base_transforms sp sh clip_hu_min clip_hu_max ax ! 4
           = ScaleIntensityRanged clip_hu_min clip_hu_max 0 1 True
     \<and> apply_transform lib (ScaleIntensityRanged clip_hu_min clip_hu_max 0 1 True) (Img t) w
           = (Inr (Img (t\<lparr>elems :=
                 map (\<lambda>x. (max clip_hu_min (min clip_hu_max x) - clip_hu_min)
                             / (clip_hu_max - clip_hu_min)) (elems t)\<rparr>)), w)
     \<and> scale_intensity_range clip_hu_min clip_hu_max 0 1 True clip_hu_min = 0
     \<and> scale_intensity_range clip_hu_min clip_hu_max 0 1 True clip_hu_max = 1
     \<and> 0 \<le> scale_intensity_range clip_hu_min clip_hu_max 0 1 True x
     \<and> scale_intensity_range clip_hu_min clip_hu_max 0 1 True x \<le> 1
     \<and> (x \<le> clip_hu_min \<longrightarrow> scale_intensity_range clip_hu_min clip_hu_max 0 1 True x = 0)
     \<and> (clip_hu_max \<le> x \<longrightarrow> scale_intensity_range clip_hu_min clip_hu_max 0 1 True x = 1)
     \<and> scale_intensity_range (- 1000) 400 0 1 True (- 1000) = 0
     \<and> scale_intensity_range (- 1000) 400 0 1 True 400 = 1
     \<and> scale_intensity_range (- 1000) 400 0 1 True (- 1600) = 0"
proof -
  have step: "base_transforms sp sh clip_hu_min clip_hu_max ax ! 4
           = ScaleIntensityRanged clip_hu_min clip_hu_max 0 1 True"
    by (simp add: base_transforms_def)
  have img: "apply_transform lib (ScaleIntensityRanged clip_hu_min clip_hu_max 0 1 True) (Img t) w
           = (Inr (Img (t\<lparr>elems :=
                 map (\<lambda>x. (max clip_hu_min (min clip_hu_max x) - clip_hu_min)
                             / (clip_hu_max - clip_hu_min)) (elems t)\<rparr>)), w)"
    by (simp add: scale_intensity_ranged_def scale_intensity_range_def)
  have ends: "scale_intensity_range clip_hu_min clip_hu_max 0 1 True clip_hu_min = 0"
    "scale_intensity_range clip_hu_min clip_hu_max 0 1 True clip_hu_max = 1"
    using scale_range(3,4)[OF assms] by simp_all
  have scen: "scale_intensity_range (- 1000) 400 0 1 True (- 1000) = 0"
    "scale_intensity_range (- 1000) 400 0 1 True 400 = 1"
    "scale_intensity_range (- 1000) 400 0 1 True (- 1600) = 0"
    by (simp_all add: scale_intensity_range_def)
  show ?thesis
    using step img ends scen scale_range[OF assms, of x] by simp
qed

theorem intensity_normalization_witness:
  "base_transforms [1, 1, 1] [2, 2, 2] (- 1000) 400 ''LPS'' ! 4
     = ScaleIntensityRanged (- 1000) 400 0 1 True
   \<and> map (scale_intensity_range (- 1000) 400 0 1 True) [- 1000, 400, - 1600, 1000, - 300]
       = [0, 1, 0, 1, 1 / 2]"
  using intensity_normalization[of "- 1000" 400 "[1, 1, 1]" "[2, 2, 2]" "''LPS''"]
  by (simp add: scale_intensity_range_def)

section \<open>Properties of the model\<close>

subsection \<open>Construction\<close>

lemma make_blocks_Inr:
  "TransformerBlock_init (embed_dim a) (num_heads a) (mlp_ratio a) (qkv_bias a)
      (drop_rate a) (attn_drop_rate a) = Inr b \<Longrightarrow> make_blocks n a = Inr (replicate n b)"
  by (induction n) simp_all

lemma make_blocks_Inl:
  "TransformerBlock_init (embed_dim a) (num_heads a) (mlp_ratio a) (qkv_bias a)
      (drop_rate a) (attn_drop_rate a) = Inl e \<Longrightarrow> 0 < n \<Longrightarrow> make_blocks n a = Inl e"
  by (cases n) simp_all

lemma make_blocks_volume_size:
  "make_blocks n (a\<lparr>volume_size := v\<rparr>) = make_blocks n a"
  by (induction n) (simp_all split: sum.splits)

lemma PatchEmbed3D_init_Inr:
  "PatchEmbed3D_init v p c e = Inr pe \<Longrightarrow>
     n_patches pe = (fst v div fst p) * (fst (snd v) div fst (snd p)) * (snd (snd v) div snd (snd p))
     \<and> proj pe = nn_Conv3d c e p p"
  by (auto simp: PatchEmbed3D_init_def split: prod.splits if_splits)

lemma VisionTransformer3D_init_Inr:
  assumes "VisionTransformer3D_init a = Inr m"
  obtains pe pdrop bs where
    "PatchEmbed3D_init (volume_size a) (patch_size a) (in_channels a) (embed_dim a) = Inr pe"
    "nn_Dropout (drop_rate a) = Inr pdrop"
    "make_blocks (depth a) a = Inr bs"
    "m = init_weights
           \<lparr>vit_num_classes = num_classes a,
            vit_embed_dim = embed_dim a,
            vit_use_checkpointing = use_checkpointing a,
            patch_embed = pe,
            cls_token = Param [1, 1, embed_dim a] (Constant 0),
            pos_embed = Param [1, n_patches pe + 1, embed_dim a] (Constant 0),
            pos_drop = pdrop,
            blocks = bs,
            norm_mod = nn_LayerNorm (embed_dim a),
            head = [nn_Linear (embed_dim a) 256 True, ReLU, Dropout (5 / 10),
                    nn_Linear 256 (num_classes a) True],
            training = True\<rparr>"
  using assms
  by (auto simp: VisionTransformer3D_init_def Let_def nn_Dropout_def split: sum.splits if_splits)

lemma make_blocks_set:
  "make_blocks n a = Inr bs \<Longrightarrow> b \<in> set bs \<Longrightarrow>
   TransformerBlock_init (embed_dim a) (num_heads a) (mlp_ratio a) (qkv_bias a)
      (drop_rate a) (attn_drop_rate a) = Inr b"
  by (induction n arbitrary: bs) (auto split: sum.splits)

lemma make_blocks_replicate:
  "make_blocks n a = Inr bs \<Longrightarrow> 0 < n \<Longrightarrow>
   \<exists>b. TransformerBlock_init (embed_dim a) (num_heads a) (mlp_ratio a) (qkv_bias a)
      (drop_rate a) (attn_drop_rate a) = Inr b \<and> bs = replicate n b"
proof -
  assume bs: "make_blocks n a = Inr bs" and n: "0 < n"
  from n obtain k where k: "n = Suc k" by (cases n) auto
  from bs k obtain b where b: "TransformerBlock_init (embed_dim a) (num_heads a) (mlp_ratio a)
      (qkv_bias a) (drop_rate a) (attn_drop_rate a) = Inr b"
    by (auto split: sum.splits)
  from make_blocks_Inr[OF b, of n] bs have "bs = replicate n b" by simp
  with b show ?thesis by blast
qed

lemma TransformerBlock_init_Inr:
  assumes "TransformerBlock_init e nh mr qb dr ad = Inr b"
  obtains h where "0 < h"
    "h = (if py_int (of_nat e * mr) = 0 then e else nat (py_int (of_nat e * mr)))"
    "norm1 b = nn_LayerNorm e" "norm2 b = nn_LayerNorm e"
    "qkv (attn b) = nn_Linear e (e * 3) qb" "attn_drop (attn b) = Dropout ad"
    "attn_proj (attn b) = nn_Linear e e True" "proj_drop (attn b) = Dropout dr"
    "fc1 (mlp b) = nn_Linear e h True" "act (mlp b) = GELU"
    "fc2 (mlp b) = nn_Linear h e True" "drop_mod (mlp b) = Dropout dr"
proof -
  have pos: "0 < e" if "0 < e div nh"
    using that by (cases "e = 0") simp_all
  show ?thesis
    using assms that pos
    by (auto simp: TransformerBlock_init_def MultiHeadAttention3D_init_def MLP_init_def
        nn_Dropout_def Let_def split: sum.splits if_splits)
qed

text \<open>A zero patch dimension makes the floor division of lines 23 to 25 raise.\<close>

lemma PatchEmbed3D_init_zero_patch:
  "pd = 0 \<or> ph = 0 \<or> pw = 0 \<Longrightarrow>
   PatchEmbed3D_init v (pd, ph, pw) c e = Inl ZeroDivisionError"
  by (cases v) (simp add: PatchEmbed3D_init_def)

text \<open>Construction returns a model for every sound configuration.\<close>

lemma TransformerBlock_init_succeeds:
  assumes "0 < nh" "nh \<le> e" "0 \<le> dr" "dr \<le> 1" "0 \<le> ad" "ad \<le> 1" "0 \<le> mr"
  shows "\<exists>b. TransformerBlock_init e nh mr qb dr ad = Inr b"
proof -
  have "0 < e div nh" using assms(1,2) by (simp add: div_greater_zero_iff)
  moreover have "0 \<le> py_int (of_nat e * mr)" using assms(7) by (simp add: py_int_def)
  ultimately show ?thesis using assms
    by (simp add: TransformerBlock_init_def MultiHeadAttention3D_init_def nn_Dropout_def
        MLP_init_def Let_def not_less)
qed

lemma VisionTransformer3D_init_succeeds:
  assumes "patch_size a = (pd, ph, pw)" "0 < pd" "0 < ph" "0 < pw"
    "0 < num_heads a" "num_heads a \<le> embed_dim a"
    "0 \<le> drop_rate a" "drop_rate a \<le> 1" "0 \<le> attn_drop_rate a" "attn_drop_rate a \<le> 1"
    "0 \<le> mlp_ratio a"
  shows "\<exists>m. VisionTransformer3D_init a = Inr m"
proof -
  obtain b where "TransformerBlock_init (embed_dim a) (num_heads a) (mlp_ratio a) (qkv_bias a)
      (drop_rate a) (attn_drop_rate a) = Inr b"
    using TransformerBlock_init_succeeds[OF assms(5-11)] by blast
  then have "make_blocks (depth a) a = Inr (replicate (depth a) b)" by (rule make_blocks_Inr)
  then show ?thesis using assms(1-4,7,8)
    by (cases "volume_size a")
       (simp add: VisionTransformer3D_init_def PatchEmbed3D_init_def nn_Dropout_def Let_def not_less)
qed

text \<open>
  C4. For a constructed model whose volume dimensions are multiples of the patch
  dimensions, \<open>n_patches\<close> is \<open>(D/pd) * (H/ph) * (W/pw)\<close> with exact quotients (the patches
  tile the volume: \<open>n_patches * pd * ph * pw = D * H * W\<close>), and the positional-embedding
  table has \<open>n_patches + 1\<close> rows. With the volume (32, 32, 32) and the patch (16, 16, 16)
  that is 8 patches and 9 rows.
\<close>

theorem patch_count:
  assumes "VisionTransformer3D_init a = Inr m"
    and "volume_size a = (vd, vh, vw)" and "patch_size a = (pd, ph, pw)"
    and "pd dvd vd" and "ph dvd vh" and "pw dvd vw"
  shows "n_patches (patch_embed m) = (vd div pd) * (vh div ph) * (vw div pw)
       \<and> n_patches (patch_embed m) * (pd * ph * pw) = vd * vh * vw
       \<and> pshape (pos_embed m) = [1, n_patches (patch_embed m) + 1, embed_dim a]"
proof -
  from assms(1) obtain pe where
    pe: "PatchEmbed3D_init (volume_size a) (patch_size a) (in_channels a) (embed_dim a) = Inr pe"
    and m: "patch_embed m = init_PatchEmbed3D pe"
       "pos_embed m = Param [1, n_patches pe + 1, embed_dim a] (Trunc_normal std)"
    by (elim VisionTransformer3D_init_Inr) (simp add: init_weights_def)
  from PatchEmbed3D_init_Inr[OF pe] assms(2,3)
  have n: "n_patches pe = (vd div pd) * (vh div ph) * (vw div pw)" by simp
  have "(vd div pd) * (vh div ph) * (vw div pw) * (pd * ph * pw)
        = (vd div pd * pd) * (vh div ph * ph) * (vw div pw * pw)"
    by (simp add: algebra_simps)
  also have "\<dots> = vd * vh * vw" using assms(4-6) by simp
  finally show ?thesis using n m by (simp add: init_PatchEmbed3D_def)
qed

theorem patch_count_witness:
  "map_sum id (\<lambda>m. (n_patches (patch_embed m), pshape (pos_embed m)))
     (VisionTransformer3D_init (default_args\<lparr>volume_size := (32, 32, 32), patch_size := (16, 16, 16)\<rparr>))
   = Inr (8, [1, 9, 768])"
proof -
  let ?a = "default_args\<lparr>volume_size := (32, 32, 32), patch_size := (16, 16, 16)\<rparr>"
  obtain m where m: "VisionTransformer3D_init ?a = Inr m"
    using VisionTransformer3D_init_succeeds[of ?a 16 16 16] by (auto simp: default_args_def)
  from patch_count[OF m, of 32 32 32 16 16 16] m show ?thesis by (simp add: default_args_def)
qed

text \<open>
  C10. The head of every constructed model is a linear layer from \<open>embed_dim\<close> to 256,
  ReLU, dropout with probability 1/2 and a linear layer from 256 to \<open>num_classes\<close>,
  whatever \<open>drop_rate\<close> and the other arguments are.
\<close>

theorem head_fixed:
  assumes "VisionTransformer3D_init a = Inr m"
  shows "head m = [Linear (Param [256, embed_dim a] (Trunc_normal std)) (Some (Param [256] (Constant 0))),
                   ReLU, Dropout (1 / 2),
                   Linear (Param [num_classes a, 256] (Trunc_normal std)) (Some (Param [num_classes a] (Constant 0)))]"
  using assms
  by (elim VisionTransformer3D_init_Inr) (simp add: init_weights_def nn_Linear_def)

text \<open>With \<open>drop_rate = 0.1\<close> and five classes the dropout of the head is still 1/2.\<close>

theorem head_fixed_witness:
  "map_sum id head (VisionTransformer3D_init (default_args\<lparr>drop_rate := 1 / 10, num_classes := 5\<rparr>))
    = Inr [Linear (Param [256, 768] (Trunc_normal std)) (Some (Param [256] (Constant 0))),
                   ReLU, Dropout (1 / 2),
                   Linear (Param [5, 256] (Trunc_normal std)) (Some (Param [5] (Constant 0)))]"
proof -
  let ?a = "default_args\<lparr>drop_rate := 1 / 10, num_classes := 5\<rparr>"
  obtain m where m: "VisionTransformer3D_init ?a = Inr m"
    using VisionTransformer3D_init_succeeds[of ?a 16 16 16] by (auto simp: default_args_def)
  from head_fixed[OF m] m show ?thesis by (simp add: default_args_def)
qed

text \<open>
  C2, as stated, fails: the volume (33, 32, 32) is not a multiple of the patch
  (16, 16, 16) along the first axis, and construction returns a model, with 8 patches.
\<close>

theorem construction_without_divisibility_counterexample:
  "\<not> (16::nat) dvd 33
   \<and> map_sum id (\<lambda>m. n_patches (patch_embed m))
     (VisionTransformer3D_init (default_args\<lparr>volume_size := (33, 32, 32), patch_size := (16, 16, 16)\<rparr>))
   = Inr 8"
proof -
  let ?a = "default_args\<lparr>volume_size := (33, 32, 32), patch_size := (16, 16, 16)\<rparr>"
  obtain m where m: "VisionTransformer3D_init ?a = Inr m"
    using VisionTransformer3D_init_succeeds[of ?a 16 16 16] by (auto simp: default_args_def)
  then obtain pe where
    pe: "PatchEmbed3D_init (volume_size ?a) (patch_size ?a) (in_channels ?a) (embed_dim ?a) = Inr pe"
    and pm: "patch_embed m = init_PatchEmbed3D pe"
    by (elim VisionTransformer3D_init_Inr) (simp add: init_weights_def)
  from PatchEmbed3D_init_Inr[OF pe] pm m show ?thesis
    by (simp add: default_args_def init_PatchEmbed3D_def)
qed

text \<open>
  C2, amended. Construction never looks at a remainder: whether it raises, and with
  which exception, does not depend on \<open>volume_size\<close>. Where it returns a model for one
  volume size it returns one for every volume size, divisible or not, and \<open>n_patches\<close> is
  the product of the floor quotients \<open>(D // pd) * (H // ph) * (W // pw)\<close>.
\<close>

theorem construction_ignores_volume_size:
  "(case VisionTransformer3D_init a of
      Inl e \<Rightarrow> VisionTransformer3D_init (a\<lparr>volume_size := (vd, vh, vw)\<rparr>) = Inl e
    | Inr m \<Rightarrow>
        (\<exists>m'. VisionTransformer3D_init (a\<lparr>volume_size := (vd, vh, vw)\<rparr>) = Inr m'
           \<and> n_patches (patch_embed m')
               = (vd div fst (patch_size a)) * (vh div fst (snd (patch_size a)))
                   * (vw div snd (snd (patch_size a)))))"
  by (cases "volume_size a"; cases "patch_size a")
     (auto simp: VisionTransformer3D_init_def PatchEmbed3D_init_def make_blocks_volume_size Let_def
      init_weights_def init_PatchEmbed3D_def
      split: sum.splits if_splits)

theorem construction_ignores_volume_size_witness:
  "map_sum id (\<lambda>m. n_patches (patch_embed m))
     (VisionTransformer3D_init (default_args\<lparr>volume_size := (100, 50, 17)\<rparr>)) = Inr 18
   \<and> VisionTransformer3D_init (default_args\<lparr>num_heads := 0, volume_size := (100, 50, 17)\<rparr>)
       = Inl ZeroDivisionError"
proof -
  obtain m where m: "VisionTransformer3D_init default_args = Inr m"
    using VisionTransformer3D_init_succeeds[of default_args 16 16 16]
    by (auto simp: default_args_def)
  have "make_blocks (depth (default_args\<lparr>num_heads := 0\<rparr>)) (default_args\<lparr>num_heads := 0\<rparr>)
      = Inl ZeroDivisionError"
    by (rule make_blocks_Inl)
       (simp_all add: default_args_def TransformerBlock_init_def MultiHeadAttention3D_init_def)
  then have e: "VisionTransformer3D_init (default_args\<lparr>num_heads := 0\<rparr>) = Inl ZeroDivisionError"
    by (simp add: VisionTransformer3D_init_def PatchEmbed3D_init_def nn_Dropout_def
        default_args_def Let_def)
  from construction_ignores_volume_size[where a = default_args and vd = 100 and vh = 50 and vw = 17] m
  have "map_sum id (\<lambda>m. n_patches (patch_embed m))
     (VisionTransformer3D_init (default_args\<lparr>volume_size := (100, 50, 17)\<rparr>)) = Inr 18"
    by (auto simp: default_args_def)
  moreover from construction_ignores_volume_size[where a = "default_args\<lparr>num_heads := 0\<rparr>" and vd = 100 and vh = 50 and vw = 17] e
  have "VisionTransformer3D_init (default_args\<lparr>num_heads := 0, volume_size := (100, 50, 17)\<rparr>)
       = Inl ZeroDivisionError"
    by simp
  ultimately show ?thesis by simp
qed

subsection \<open>Initialisation\<close>

lemma block_schemes:
  assumes "TransformerBlock_init e nh mr qb dr ad = Inr b"
  shows "set (map (\<lambda>(k, p). (k, pinit p)) (block_parameters (init_TransformerBlock b)))
     \<subseteq> {(Linear_weight, Trunc_normal std), (Linear_bias, Constant 0),
         (Norm_weight, Constant 1), (Norm_bias, Constant 0)}"
  using assms
  by (elim TransformerBlock_init_Inr)
     (auto simp: block_parameters_def init_TransformerBlock_def attn_parameters_def
      mlp_parameters_def init_MultiHeadAttention3D_def init_MLP_def nn_Linear_def nn_LayerNorm_def)

text \<open>
  C3, as stated, fails: in the model of the default arguments the weight and the bias of
  the patch-embedding projection keep the initialisation of the \<open>Conv3d\<close> constructor.
  \<open>_init_weights\<close> tests for \<open>nn.Linear\<close> and \<open>nn.LayerNorm\<close> only.
\<close>

theorem patch_projection_default_counterexample:
  "map_sum id (\<lambda>m. map (\<lambda>(k, p). (k, pinit p)) (module_parameters (proj (patch_embed m))))
     (VisionTransformer3D_init default_args)
   = Inr [(Conv_weight, Library_default), (Conv_bias, Library_default)]"
proof -
  obtain m where m: "VisionTransformer3D_init default_args = Inr m"
    using VisionTransformer3D_init_succeeds[of default_args 16 16 16] by (auto simp: default_args_def)
  then obtain pe where
    pe: "PatchEmbed3D_init (volume_size default_args) (patch_size default_args)
           (in_channels default_args) (embed_dim default_args) = Inr pe"
    and pm: "patch_embed m = init_PatchEmbed3D pe"
    by (elim VisionTransformer3D_init_Inr) (simp add: init_weights_def)
  from PatchEmbed3D_init_Inr[OF pe] pm m show ?thesis
    by (simp add: default_args_def init_PatchEmbed3D_def nn_Conv3d_def)
qed

text \<open>
  C3, amended. In every constructed model the CLS token, the positional table and the
  weight of every linear layer are drawn from the truncated normal with std 0.02, the
  bias of every linear layer is 0, the scale of every normalization layer is 1 and its
  bias 0; the weight and bias of the patch-embedding convolution are left as the library
  constructor made them.
\<close>

theorem init_schemes:
  assumes "VisionTransformer3D_init a = Inr m"
  shows "set (map (\<lambda>(k, p). (k, pinit p)) (named_parameters m))
     \<subseteq> {(Cls_token, Trunc_normal std), (Pos_embed, Trunc_normal std),
         (Conv_weight, Library_default), (Conv_bias, Library_default),
         (Linear_weight, Trunc_normal std), (Linear_bias, Constant 0),
         (Norm_weight, Constant 1), (Norm_bias, Constant 0)}"
proof -
  from assms obtain pe pdrop bs where
    pe: "PatchEmbed3D_init (volume_size a) (patch_size a) (in_channels a) (embed_dim a) = Inr pe"
    and pd: "nn_Dropout (drop_rate a) = Inr pdrop"
    and bs: "make_blocks (depth a) a = Inr bs"
    and m: "cls_token m = Param [1, 1, embed_dim a] (Trunc_normal std)"
       "pos_embed m = Param [1, n_patches pe + 1, embed_dim a] (Trunc_normal std)"
       "patch_embed m = init_PatchEmbed3D pe"
       "pos_drop m = init_module pdrop"
       "blocks m = map init_TransformerBlock bs"
       "norm_mod m = init_module (nn_LayerNorm (embed_dim a))"
       "head m = map init_module [nn_Linear (embed_dim a) 256 True, ReLU, Dropout (5 / 10),
                    nn_Linear 256 (num_classes a) True]"
    by (elim VisionTransformer3D_init_Inr) (simp add: init_weights_def)
  have blk: "set (map (\<lambda>(k, p). (k, pinit p)) (block_parameters (init_TransformerBlock b)))
     \<subseteq> {(Linear_weight, Trunc_normal std), (Linear_bias, Constant 0),
         (Norm_weight, Constant 1), (Norm_bias, Constant 0)}" if "b \<in> set bs" for b
    using block_schemes[OF make_blocks_set[OF bs that]] .
  have pdrop: "pdrop = Dropout (drop_rate a)"
    using pd by (auto simp: nn_Dropout_def split: if_splits)
  have conv: "proj pe = nn_Conv3d (in_channels a) (embed_dim a) (patch_size a) (patch_size a)"
    using PatchEmbed3D_init_Inr[OF pe] by simp
  show ?thesis
    using blk
    by (cases "patch_size a")
       (auto simp: named_parameters_def m pdrop conv init_PatchEmbed3D_def nn_Conv3d_def
        nn_Linear_def nn_LayerNorm_def)
qed

theorem init_schemes_witness:
  "(case VisionTransformer3D_init (default_args\<lparr>depth := 1\<rparr>) of
      Inl e \<Rightarrow> False
    | Inr m \<Rightarrow> set (map (\<lambda>(k, p). (k, pinit p)) (named_parameters m))
     \<subseteq> {(Cls_token, Trunc_normal std), (Pos_embed, Trunc_normal std),
         (Conv_weight, Library_default), (Conv_bias, Library_default),
         (Linear_weight, Trunc_normal std), (Linear_bias, Constant 0),
         (Norm_weight, Constant 1), (Norm_bias, Constant 0)})"
proof -
  obtain m where m: "VisionTransformer3D_init (default_args\<lparr>depth := 1\<rparr>) = Inr m"
    using VisionTransformer3D_init_succeeds[of "default_args\<lparr>depth := 1\<rparr>" 16 16 16]
    by (auto simp: default_args_def)
  from init_schemes[OF m] m show ?thesis by simp
qed

subsection \<open>Parameter counts\<close>

lemma numel_set_init [simp]: "numel (set_init i p) = numel p"
  by (cases p) (simp add: numel_def)

lemma block_count:
  assumes "TransformerBlock_init e nh mr qb dr ad = Inr b"
    and "py_int (of_nat e * mr) = int h" and "0 < h"
  shows "sum_list (map (numel \<circ> snd) (block_parameters (init_TransformerBlock b)))
     = 2 * e + (3 * e * e + (if qb then 3 * e else 0)) + (e * e + e) + 2 * e
       + (h * e + h) + (e * h + e)"
  using assms
  by (elim TransformerBlock_init_Inr)
     (auto simp: block_parameters_def init_TransformerBlock_def attn_parameters_def
      mlp_parameters_def init_MultiHeadAttention3D_def init_MLP_def nn_Linear_def nn_LayerNorm_def
      numel_def)

lemma sum_list_concat_replicate:
  "sum_list (map f (concat (replicate n xs))) = n * sum_list (map f xs)"
  by (induction n) (simp_all add: algebra_simps)

lemma count_parameters_init:
  assumes "VisionTransformer3D_init a = Inr m"
    and "volume_size a = (vd, vh, vw)" and "patch_size a = (pd, ph, pw)"
    and "py_int (of_nat (embed_dim a) * mlp_ratio a) = int h" and "0 < h" and "0 < depth a"
  shows "count_parameters m =
     embed_dim a + ((vd div pd) * (vh div ph) * (vw div pw) + 1) * embed_dim a
     + (embed_dim a * in_channels a * pd * ph * pw + embed_dim a)
     + depth a * (2 * embed_dim a + (3 * embed_dim a * embed_dim a + (if qkv_bias a then 3 * embed_dim a else 0))
                  + (embed_dim a * embed_dim a + embed_dim a) + 2 * embed_dim a
                  + (h * embed_dim a + h) + (embed_dim a * h + embed_dim a))
     + 2 * embed_dim a
     + (256 * embed_dim a + 256) + (num_classes a * 256 + num_classes a)"
proof -
  from assms(1) obtain pe pdrop bs where
    pe: "PatchEmbed3D_init (volume_size a) (patch_size a) (in_channels a) (embed_dim a) = Inr pe"
    and pd: "nn_Dropout (drop_rate a) = Inr pdrop"
    and bs: "make_blocks (depth a) a = Inr bs"
    and m: "cls_token m = Param [1, 1, embed_dim a] (Trunc_normal std)"
       "pos_embed m = Param [1, n_patches pe + 1, embed_dim a] (Trunc_normal std)"
       "patch_embed m = init_PatchEmbed3D pe"
       "pos_drop m = init_module pdrop"
       "blocks m = map init_TransformerBlock bs"
       "norm_mod m = init_module (nn_LayerNorm (embed_dim a))"
       "head m = map init_module [nn_Linear (embed_dim a) 256 True, ReLU, Dropout (5 / 10),
                    nn_Linear 256 (num_classes a) True]"
    by (elim VisionTransformer3D_init_Inr) (simp add: init_weights_def)
  from make_blocks_replicate[OF bs assms(6)] obtain b where
    b: "TransformerBlock_init (embed_dim a) (num_heads a) (mlp_ratio a) (qkv_bias a)
      (drop_rate a) (attn_drop_rate a) = Inr b" and bsr: "bs = replicate (depth a) b"
    by blast
  have pdrop: "pdrop = Dropout (drop_rate a)"
    using pd by (auto simp: nn_Dropout_def split: if_splits)
  have conv: "proj pe = nn_Conv3d (in_channels a) (embed_dim a) (patch_size a) (patch_size a)"
    and np: "n_patches pe = (vd div pd) * (vh div ph) * (vw div pw)"
    using PatchEmbed3D_init_Inr[OF pe] assms(2,3) by simp_all
  have blocks: "sum_list (map (numel \<circ> snd) (concat (map block_parameters (blocks m))))
      = depth a * sum_list (map (numel \<circ> snd) (block_parameters (init_TransformerBlock b)))"
    by (simp add: m bsr sum_list_concat_replicate)
  show ?thesis
    unfolding count_parameters_def named_parameters_def
    by (simp add: blocks block_count[OF b assms(4,5)] m(1-4,6,7) pdrop conv np assms(3)
        init_PatchEmbed3D_def nn_Conv3d_def nn_Linear_def nn_LayerNorm_def numel_def)
qed

lemma preset_count:
  assumes "0 < e" "0 < nh" "nh \<le> e" "0 < d"
  shows "\<exists>m. VisionTransformer3D_init (update_kwargs no_kwargs
       (default_args\<lparr>embed_dim := e, depth := d, num_heads := nh, mlp_ratio := 4,
                     num_classes := nc, use_checkpointing := uc\<rparr>)) = Inr m
     \<and> count_parameters m = 5533 * e + d * (12 * e * e + 13 * e) + 256 + 257 * nc"
proof -
  let ?a = "update_kwargs no_kwargs
       (default_args\<lparr>embed_dim := e, depth := d, num_heads := nh, mlp_ratio := 4,
                     num_classes := nc, use_checkpointing := uc\<rparr>)"
  have a: "?a = \<lparr>volume_size = (96, 224, 224), patch_size = (16, 16, 16), in_channels = 1,
      num_classes = nc, embed_dim = e, depth = d, num_heads = nh, mlp_ratio = 4,
      qkv_bias = True, drop_rate = 0, attn_drop_rate = 0, use_checkpointing = uc\<rparr>"
    by (simp add: update_kwargs_def no_kwargs_def default_args_def or_default_def)
  obtain m where m: "VisionTransformer3D_init ?a = Inr m"
    using VisionTransformer3D_init_succeeds[of ?a 16 16 16] assms unfolding a by auto
  have h: "py_int (of_nat (embed_dim ?a) * mlp_ratio ?a) = int (4 * e)"
  proof -
    have "(of_nat e :: rat) * 4 = of_int (int (4 * e))" by simp
    then have "\<lfloor>(of_nat e :: rat) * 4\<rfloor> = int (4 * e)" by (simp only: floor_of_int)
    then show ?thesis unfolding a by (simp add: py_int_def)
  qed
  have "count_parameters m = 5533 * e + d * (12 * e * e + 13 * e) + 256 + 257 * nc"
    using count_parameters_init[OF m, of 96 224 224 16 16 16 "4 * e"] h assms
    unfolding a by (simp add: algebra_simps)
  with m show ?thesis by blast
qed

text \<open>
  C7. For every \<open>num_classes\<close> (and either value of \<open>use_checkpointing\<close>), with no other
  keyword argument, the four factories return models and their parameter counts
  increase strictly: tiny, small, base, large.
\<close>

theorem preset_parameter_counts:
  "\<exists>t s b l. vit_tiny_3d nc uc no_kwargs = Inr t \<and> vit_small_3d nc uc no_kwargs = Inr s
     \<and> vit_base_3d nc uc no_kwargs = Inr b \<and> vit_large_3d nc uc no_kwargs = Inr l
     \<and> count_parameters t < count_parameters s
     \<and> count_parameters s < count_parameters b
     \<and> count_parameters b < count_parameters l"
proof -
  obtain t where t: "vit_tiny_3d nc uc no_kwargs = Inr t"
      "count_parameters t = 6400960 + 257 * nc"
    using preset_count[where e = 192 and nh = 3 and d = 12 and nc = nc and uc = uc] by (auto simp: vit_tiny_3d_def)
  obtain s where s: "vit_small_3d nc uc no_kwargs = Inr s"
      "count_parameters s = 23418496 + 257 * nc"
    using preset_count[where e = 384 and nh = 6 and d = 12 and nc = nc and uc = uc] by (auto simp: vit_small_3d_def)
  obtain b where b: "vit_base_3d nc uc no_kwargs = Inr b"
      "count_parameters b = 89304064 + 257 * nc"
    using preset_count[where e = 768 and nh = 12 and d = 12 and nc = nc and uc = uc] by (auto simp: vit_base_3d_def)
  obtain l where l: "vit_large_3d nc uc no_kwargs = Inr l"
      "count_parameters l = 307975424 + 257 * nc"
    using preset_count[where e = 1024 and nh = 16 and d = 24 and nc = nc and uc = uc] by (auto simp: vit_large_3d_def)
  show ?thesis using t s b l by simp
qed

subsection \<open>Gradient checkpointing\<close>

text \<open>
  C6. With the wrapper modelled from the spec, \<open>forward\<close> and \<open>forward_features\<close> return
  the same result and leave the same random state with \<open>use_checkpointing\<close> on and off,
  for every model, input and layer arithmetic. Outside training mode the result does not
  depend on the wrapper at all, whatever the flag: the checkpointed path is taken only
  while the model is in training mode.
\<close>

theorem forward_checkpointing:
  "forward L checkpoint (m\<lparr>vit_use_checkpointing := True\<rparr>) x r
     = forward L checkpoint (m\<lparr>vit_use_checkpointing := False\<rparr>) x r
   \<and> forward_features L checkpoint (m\<lparr>vit_use_checkpointing := True\<rparr>) x r
     = forward_features L checkpoint (m\<lparr>vit_use_checkpointing := False\<rparr>) x r
   \<and> forward L ckpt (m\<lparr>training := False\<rparr>) x r
     = forward L ckpt' (m\<lparr>training := False, vit_use_checkpointing := False\<rparr>) x r"
  by (simp add: forward_def forward_features_def checkpoint_def)

end
